theory Spec2Isabelle
  imports Complex_Main "HOL-Library.AList"
begin

section \<open>The Nuxt module (packages/nuxt/src/module.ts)\<close>

text \<open>
  \<^verbatim>\<open>ModuleOptions\<close>: both options are optional (\<^verbatim>\<open>disableVuex?: boolean\<close>,
  \<^verbatim>\<open>storesDirs?: string[]\<close>); \<open>None\<close> is JavaScript's \<^verbatim>\<open>undefined\<close>.
\<close>

record module_options =
  disableVuex :: "bool option"
  storesDirs :: "string list option"

text \<open>The \<^verbatim>\<open>defaults\<close> entry of the module definition.\<close>

definition defaults :: module_options where
  "defaults = \<lparr>disableVuex = Some True, storesDirs = Some [''./stores'']\<rparr>"

text \<open>
  The part of \<^verbatim>\<open>nuxt.options\<close> that \<^verbatim>\<open>setup\<close> reads or writes.
  \<^verbatim>\<open>features\<close> is the Nuxt 2 object of feature flags, absent (\<open>None\<close>) on hosts
  that have no such option; \<^verbatim>\<open>alias\<close> maps an alias name to a path.
\<close>

record nuxt_options =
  features :: "(string \<rightharpoonup> bool) option"
  build_transpile :: "string list"
  aliases :: "string \<rightharpoonup> string"
  rootDir :: string

text \<open>
  The two closures that \<^verbatim>\<open>setup\<close> passes to \<^verbatim>\<open>nuxt.hook\<close>, as data: the
  callback of \<^verbatim>\<open>'prepare:types'\<close> and the callback of \<^verbatim>\<open>'modules:done'\<close>.
\<close>

datatype hook_callback = PrepareTypes | ModulesDone

text \<open>
  The Nuxt instance together with what the calls into \<^verbatim>\<open>@nuxt/kit\<close> leave behind:
  the hooks registered with \<^verbatim>\<open>nuxt.hook\<close> in registration order, and the arguments
  of every \<^verbatim>\<open>addPlugin\<close>, \<^verbatim>\<open>addImports\<close> and \<^verbatim>\<open>addImportsDir\<close> call in call
  order. An auto import is the pair \<open>(from, name)\<close>.
\<close>

record nuxt =
  options :: nuxt_options
  hooks :: "(string \<times> hook_callback) list"
  added_plugins :: "string list"
  added_imports :: "(string \<times> string) list"
  added_imports_dirs :: "string list"

text \<open>
  What \<^verbatim>\<open>@nuxt/kit\<close> answers, taken as parameters: \<^verbatim>\<open>isNuxt2()\<close>, the
  \<^verbatim>\<open>resolve\<close> method of \<^verbatim>\<open>createResolver(import.meta.url)\<close> applied to its
  argument list, \<^verbatim>\<open>resolveModule(id, {paths})\<close>, and \<^verbatim>\<open>import.meta.url\<close> itself.
\<close>

record kit =
  isNuxt2 :: bool
  resolve :: "string list \<Rightarrow> string"
  resolveModule :: "string \<Rightarrow> string list \<Rightarrow> string"
  meta_url :: string

text \<open>JavaScript truthiness of a value of type \<^verbatim>\<open>string | undefined\<close>.\<close>

fun truthy_str :: "string option \<Rightarrow> bool" where
  "truthy_str None = False"
| "truthy_str (Some s) = (s \<noteq> [])"

text \<open>JavaScript truthiness of a value of type \<^verbatim>\<open>boolean | undefined\<close>.\<close>

fun truthy_bool :: "bool option \<Rightarrow> bool" where
  "truthy_bool None = False"
| "truthy_bool (Some b) = b"

definition hook :: "string \<Rightarrow> hook_callback \<Rightarrow> nuxt \<Rightarrow> nuxt" where
  "hook name cb n = n\<lparr>hooks := hooks n @ [(name, cb)]\<rparr>"

definition addPlugin :: "string \<Rightarrow> nuxt \<Rightarrow> nuxt" where
  "addPlugin p n = n\<lparr>added_plugins := added_plugins n @ [p]\<rparr>"

definition addImports :: "(string \<times> string) list \<Rightarrow> nuxt \<Rightarrow> nuxt" where
  "addImports is n = n\<lparr>added_imports := added_imports n @ is\<rparr>"

definition addImportsDir :: "string \<Rightarrow> nuxt \<Rightarrow> nuxt" where
  "addImportsDir d n = n\<lparr>added_imports_dirs := added_imports_dirs n @ [d]\<rparr>"

text \<open>
  The first statement of \<^verbatim>\<open>setup\<close>:
  \<^verbatim>\<open>if (nuxt.options.features && options.disableVuex && isNuxt2())
    nuxt.options.features.store = false\<close>.
  An object is truthy, \<^verbatim>\<open>undefined\<close> is not.
\<close>

definition disable_vuex :: "kit \<Rightarrow> module_options \<Rightarrow> nuxt_options \<Rightarrow> nuxt_options" where
  "disable_vuex k opts os =
     (case features os of
        None \<Rightarrow> os
      | Some fs \<Rightarrow>
          if truthy_bool (disableVuex opts) \<and> isNuxt2 k
          then os\<lparr>features := Some (fs(''store'' \<mapsto> False))\<rparr>
          else os)"

text \<open>
  \<^verbatim>\<open>nuxt.options.alias.pinia = nuxt.options.alias.pinia ||
    resolveModule('pinia/dist/pinia.mjs', { paths: [nuxt.options.rootDir, import.meta.url] })\<close>
\<close>

definition alias_pinia :: "kit \<Rightarrow> nuxt_options \<Rightarrow> nuxt_options" where
  "alias_pinia k os =
     os\<lparr>aliases := (aliases os)(''pinia'' :=
        (if truthy_str (aliases os ''pinia'') then aliases os ''pinia''
         else Some (resolveModule k ''pinia/dist/pinia.mjs'' [rootDir os, meta_url k])))\<rparr>"

text \<open>The body of \<^verbatim>\<open>setup(options, nuxt)\<close>, statement by statement.\<close>

definition module_setup :: "kit \<Rightarrow> module_options \<Rightarrow> nuxt \<Rightarrow> nuxt" where
  "module_setup k opts nuxt0 =
     (let n1 = nuxt0\<lparr>options := disable_vuex k opts (options nuxt0)\<rparr>;
          n2 = n1\<lparr>options := (options n1)\<lparr>build_transpile :=
                 build_transpile (options n1) @ [resolve k [''./runtime'']]\<rparr>\<rparr>;
          n3 = n2\<lparr>options := alias_pinia k (options n2)\<rparr>;
          n4 = hook ''prepare:types'' PrepareTypes n3;
          n5 = hook ''modules:done'' ModulesDone n4;
          composables = resolve k [''./runtime/composables''];
          n6 = addImports [(composables, ''defineStore''),
                           (composables, ''acceptHMRUpdate''),
                           (composables, ''usePinia'')] n5
      in (case storesDirs opts of
            None \<Rightarrow> n6
          | Some dirs \<Rightarrow>
              fold (\<lambda>storeDir. addImportsDir (resolve k [rootDir (options n6), storeDir]))
                dirs n6))"

text \<open>
  Running a registered callback. The callback of \<^verbatim>\<open>'prepare:types'\<close> pushes
  \<^verbatim>\<open>{ types: '@pinia/nuxt' }\<close> on the \<^verbatim>\<open>references\<close> array it is handed (the second
  component of the state below); the callback of \<^verbatim>\<open>'modules:done'\<close> is
  \<^verbatim>\<open>if (isNuxt2()) addPlugin(resolver.resolve('./runtime/plugin.vue2'))
    else addPlugin(resolver.resolve('./runtime/plugin.vue3'))\<close>.
\<close>

fun run_callback :: "kit \<Rightarrow> hook_callback \<Rightarrow> nuxt \<times> string list \<Rightarrow> nuxt \<times> string list" where
  "run_callback k PrepareTypes (n, references) = (n, references @ [''@pinia/nuxt''])"
| "run_callback k ModulesDone (n, references) =
     (if isNuxt2 k then addPlugin (resolve k [''./runtime/plugin.vue2'']) n
      else addPlugin (resolve k [''./runtime/plugin.vue3'']) n, references)"

text \<open>Calling a hook runs the callbacks registered under its name, in registration order.\<close>

definition callbacks :: "string \<Rightarrow> nuxt \<Rightarrow> hook_callback list" where
  "callbacks name n = map snd (filter (\<lambda>h. fst h = name) (hooks n))"

definition callHook :: "kit \<Rightarrow> string \<Rightarrow> nuxt \<times> string list \<Rightarrow> nuxt \<times> string list" where
  "callHook k name s = fold (run_callback k) (callbacks name (fst s)) s"

text \<open>A concrete host for the examples: Nuxt 2 with the Vuex store feature switched on.\<close>

definition kit2 :: kit where
  "kit2 = \<lparr>isNuxt2 = True, resolve = concat,
           resolveModule = (\<lambda>i ps. concat ps @ i), meta_url = ''file:///m/''\<rparr>"

definition kit3 :: kit where
  "kit3 = kit2\<lparr>isNuxt2 := False\<rparr>"

definition nuxt_a :: nuxt where
  "nuxt_a = \<lparr>options = \<lparr>features = Some [''store'' \<mapsto> True, ''layouts'' \<mapsto> True],
                         build_transpile = [], aliases = Map.empty, rootDir = ''/app/''\<rparr>,
             hooks = [], added_plugins = [], added_imports = [], added_imports_dirs = []\<rparr>"

definition nuxt_b :: nuxt where
  "nuxt_b = nuxt_a\<lparr>options := (options nuxt_a)\<lparr>aliases := [''pinia'' \<mapsto> ''/my/pinia.js'']\<rparr>\<rparr>"

section \<open>The store registry and patching\<close>

text \<open>
  The core library (\<^verbatim>\<open>createPinia\<close>, \<^verbatim>\<open>setActivePinia\<close>, \<^verbatim>\<open>defineStore\<close>,
  \<^verbatim>\<open>$patch\<close>) is not among the sources; only its test file
  \<^verbatim>\<open>store with setup syntax\<close> is. The definitions of this section are written from the
  specification and from what that test file builds and calls.
\<close>

text \<open>
  Modelled from the spec: the plain values a state holds (the implementation of the host
  framework's values is missing). Strings, numbers, booleans, \<^verbatim>\<open>null\<close>,
  \<^verbatim>\<open>undefined\<close> and plain objects with their keys in insertion order. Numbers are exact
  rationals with \<^verbatim>\<open>NaN\<close> apart; arrays and functions are left out. A value is its
  content: that two fields may hold one and the same object, so that a change made through
  one shows through the other, is outside this model, and the theorems below that say a
  field is left as it was speak of fields whose value is not an object.
\<close>

datatype jsval =
    JUndefined | JNull | JBool bool | JNum rat | JNaN | JStr string
  | JObj "(string \<times> jsval) list"


text \<open>
  Modelled from the spec: \<^emph>\<open>patching is shallow/deep object merge\<close> (the merge function of
  the core library is missing). \<open>merge_val t v\<close> is the value a field holding \<open>t\<close> gets when
  it is patched with \<open>v\<close>: two plain objects are merged key by key, recursively, a new key
  is appended, and anything else is replaced by \<open>v\<close>.
\<close>

fun merge_val :: "jsval \<Rightarrow> jsval \<Rightarrow> jsval"
  and merge_obj :: "(string \<times> jsval) list \<Rightarrow> (string \<times> jsval) list \<Rightarrow> (string \<times> jsval) list"
where
  "merge_val (JObj t) (JObj p) = JObj (merge_obj t p)"
| "merge_val t v = v"
| "merge_obj t [] = t"
| "merge_obj t ((k, v) # p) =
     merge_obj (AList.update k (case map_of t k of None \<Rightarrow> v | Some tv \<Rightarrow> merge_val tv v) t) p"


text \<open>
  Modelled from the spec: \<^emph>\<open>the framework's reactivity primitive\<close> (the host framework is
  missing), as far as the test file uses it. \<^verbatim>\<open>ref(v)\<close> is a cell of memory with an address;
  \<open>refs\<close> gives the current \<^verbatim>\<open>.value\<close> of every ref. A property of a state object is a
  plain value, a ref, or a \<^verbatim>\<open>computed\<close> with its getter and, when it is writable, its
  setter. A getter reads refs. A setter, given the value assigned and the refs, makes
  assignments to refs: the list of \<open>(address, value)\<close> it makes, in order.
\<close>

type_synonym refs = "nat \<Rightarrow> jsval"

datatype cell =
    Plain jsval
  | Ref nat
  | Computed "refs \<Rightarrow> jsval" "(jsval \<Rightarrow> refs \<Rightarrow> (nat \<times> jsval) list) option"



type_synonym state_obj = "string \<rightharpoonup> cell"

text \<open>
  Modelled from the spec: \<^emph>\<open>Store: a named bundle of reactive state\<close> and \<^emph>\<open>Registry:
  process-wide mapping from store identifier to store instance, scoped to an application
  instance\<close> (the store and registry objects of the core library are missing). A store
  has its \<^verbatim>\<open>$id\<close> and its state object; derived values and actions are left out. The
  world is the memory of the refs and the registry of the active application instance.
\<close>

record store =
  store_id :: string
  store_state :: state_obj

record world =
  refs :: refs
  registry :: "string \<rightharpoonup> store"

text \<open>
  Modelled from the spec: \<^verbatim>\<open>createPinia()\<close> and \<^verbatim>\<open>setActivePinia(pinia)\<close> (missing), as
  the tests call them before each case: a new registry is empty, and the active one is the
  one the store-creation functions use.
\<close>

definition createPinia :: "string \<rightharpoonup> store" where
  "createPinia = Map.empty"

definition setActivePinia :: "(string \<rightharpoonup> store) \<Rightarrow> world \<Rightarrow> world" where
  "setActivePinia p w = w\<lparr>registry := p\<rparr>"

text \<open>
  Modelled from the spec: \<^verbatim>\<open>defineStore\<close> (missing). \<^emph>\<open>The store-creation function is
  effectively a factory that (a) looks up or creates an entry in a process-wide registry
  keyed by store id, (b) wraps a plain object or a setup function's return value in the
  framework's reactivity primitive\<close>. \<open>defineStore i f\<close> is the store-creation function
  that \<^verbatim>\<open>defineStore\<close> returns for the id \<open>i\<close>; \<open>f\<close> builds the state object, as
  \<^verbatim>\<open>state: () => ({ name, counter, double })\<close> does, and may create refs on the way.
\<close>

definition defineStore :: "string \<Rightarrow> (refs \<Rightarrow> state_obj \<times> refs) \<Rightarrow> world \<Rightarrow> store \<times> world" where
  "defineStore i f w =
     (case registry w i of
        Some s \<Rightarrow> (s, w)
      | None \<Rightarrow>
          (case f (refs w) of
             (st, h) \<Rightarrow>
               (\<lparr>store_id = i, store_state = st\<rparr>,
                w\<lparr>refs := h, registry := (registry w)(i \<mapsto> \<lparr>store_id = i, store_state = st\<rparr>)\<rparr>)))"


















subsection \<open>The store of the test \<^verbatim>\<open>unwraps refs\<close>\<close>

text \<open>
  \<^verbatim>\<open>counter.value * 2\<close> and \<^verbatim>\<open>val / 2\<close> on a number. \<^verbatim>\<open>counter\<close> is a
  \<^verbatim>\<open>Ref<number>\<close> and \<^verbatim>\<open>val\<close> a \<^verbatim>\<open>number\<close> by their types; on an operand of
  another type JavaScript would convert it first, which is not followed here: such an
  operand is sent to \<^verbatim>\<open>NaN\<close>. The arithmetic is exact, where JavaScript rounds to
  binary64; doubling and halving round only at the ends of the range.
\<close>

fun js_times :: "jsval \<Rightarrow> rat \<Rightarrow> jsval" where
  "js_times (JNum n) m = JNum (n * m)"
| "js_times v m = JNaN"

fun js_div :: "jsval \<Rightarrow> rat \<Rightarrow> jsval" where
  "js_div (JNum n) m = JNum (n / m)"
| "js_div v m = JNaN"

text \<open>
  \<^verbatim>\<open>const name = ref('Eduardo')\<close> is the ref at address 0, \<^verbatim>\<open>const counter = ref(0)\<close>
  the one at address 1, and
  \<^verbatim>\<open>double = computed({ get: () => counter.value * 2,
    set(val) { counter.value = val / 2 } })\<close>.
  The store is \<^verbatim>\<open>defineStore({ id: 'main', state: () => ({ name, counter, double }) })\<close>,
  created in a new active registry.
\<close>

definition double :: cell where
  "double = Computed (\<lambda>h. js_times (h 1) 2) (Some (\<lambda>val h. [(1, js_div val 2)]))"

definition unwraps_state :: "refs \<Rightarrow> state_obj \<times> refs" where
  "unwraps_state h = ([''name'' \<mapsto> Ref 0, ''counter'' \<mapsto> Ref 1, ''double'' \<mapsto> double], h)"

definition world0 :: world where
  "world0 = setActivePinia createPinia
     \<lparr>refs = (\<lambda>a. JUndefined)(0 := JStr ''Eduardo'', 1 := JNum 0), registry = Map.empty\<rparr>"

definition world1 :: world where
  "world1 = snd (defineStore ''main'' unwraps_state world0)"

definition main_store :: store where
  "main_store = \<lparr>store_id = ''main'',
     store_state = [''name'' \<mapsto> Ref 0, ''counter'' \<mapsto> Ref 1, ''double'' \<mapsto> double]\<rparr>"

section \<open>Properties of the Nuxt module\<close>

lemma options_fold_addImportsDir:
  "options (fold (\<lambda>d. addImportsDir (g d)) ds n) = options n"
  by (induction ds arbitrary: n) (simp_all add: addImportsDir_def)

lemma hooks_fold_addImportsDir:
  "hooks (fold (\<lambda>d. addImportsDir (g d)) ds n) = hooks n"
  by (induction ds arbitrary: n) (simp_all add: addImportsDir_def)

lemma added_plugins_fold_addImportsDir:
  "added_plugins (fold (\<lambda>d. addImportsDir (g d)) ds n) = added_plugins n"
  by (induction ds arbitrary: n) (simp_all add: addImportsDir_def)

lemma options_setup:
  "options (module_setup k opts n) =
     alias_pinia k ((disable_vuex k opts (options n))\<lparr>build_transpile :=
        build_transpile (disable_vuex k opts (options n)) @ [resolve k [''./runtime'']]\<rparr>)"
  by (simp add: module_setup_def Let_def hook_def addImports_def options_fold_addImportsDir
      split: option.split)

lemma hooks_setup:
  "hooks (module_setup k opts n) =
     hooks n @ [(''prepare:types'', PrepareTypes), (''modules:done'', ModulesDone)]"
  by (simp add: module_setup_def Let_def hook_def addImports_def hooks_fold_addImportsDir
      split: option.split)

lemma added_plugins_setup: "added_plugins (module_setup k opts n) = added_plugins n"
  by (simp add: module_setup_def Let_def hook_def addImports_def added_plugins_fold_addImportsDir
      split: option.split)

lemma features_alias_pinia: "features (alias_pinia k os) = features os"
  by (simp add: alias_pinia_def)

lemma features_setup:
  "features (options (module_setup k opts n)) = features (disable_vuex k opts (options n))"
  by (simp add: options_setup features_alias_pinia)

lemma alias_disable_vuex: "aliases (disable_vuex k opts os) = aliases os"
  by (simp add: disable_vuex_def split: option.split)

lemma rootDir_disable_vuex: "rootDir (disable_vuex k opts os) = rootDir os"
  by (simp add: disable_vuex_def split: option.split)

lemma alias_setup:
  "aliases (options (module_setup k opts n)) =
     (aliases (options n))(''pinia'' :=
        (if truthy_str (aliases (options n) ''pinia'') then aliases (options n) ''pinia''
         else Some (resolveModule k ''pinia/dist/pinia.mjs'' [rootDir (options n), meta_url k])))"
  by (simp add: options_setup alias_pinia_def alias_disable_vuex rootDir_disable_vuex)

text \<open>
  C8. \<^verbatim>\<open>setup\<close> sets \<^verbatim>\<open>nuxt.options.features.store\<close> to \<^verbatim>\<open>false\<close> exactly when
  \<^verbatim>\<open>nuxt.options.features\<close> is truthy (an object), the \<^verbatim>\<open>disableVuex\<close> option is
  truthy and the host is Nuxt 2, touching no other flag; in every other case
  \<^verbatim>\<open>nuxt.options.features\<close> is what it was. The default of \<^verbatim>\<open>disableVuex\<close> is
  \<^verbatim>\<open>true\<close>.
\<close>

theorem setup_features_store:
  "features (options (module_setup k opts n)) =
     (case features (options n) of
        None \<Rightarrow> None
      | Some fs \<Rightarrow>
          if truthy_bool (disableVuex opts) \<and> isNuxt2 k
          then Some (fs(''store'' \<mapsto> False)) else Some fs)
   \<and> disableVuex defaults = Some True"
  by (auto simp add: features_setup disable_vuex_def defaults_def split: option.split)

theorem setup_features_store_witness:
  "features (options (module_setup kit2 defaults nuxt_a)) =
     Some ([''store'' \<mapsto> True, ''layouts'' \<mapsto> True](''store'' \<mapsto> False))
   \<and> features (options (module_setup kit3 defaults nuxt_a)) = features (options nuxt_a)
   \<and> features (options (module_setup kit2 (defaults\<lparr>disableVuex := Some False\<rparr>) nuxt_a)) =
       features (options nuxt_a)"
proof -
  have 1: "features (options (module_setup kit2 defaults nuxt_a)) =
     Some ([''store'' \<mapsto> True, ''layouts'' \<mapsto> True](''store'' \<mapsto> False))"
    using setup_features_store [of kit2 defaults nuxt_a]
    by (simp add: nuxt_a_def kit2_def)
  have 2: "features (options (module_setup kit3 defaults nuxt_a)) = features (options nuxt_a)"
    using setup_features_store [of kit3 defaults nuxt_a]
    by (simp add: nuxt_a_def kit3_def kit2_def)
  have 3: "features (options (module_setup kit2 (defaults\<lparr>disableVuex := Some False\<rparr>) nuxt_a)) =
       features (options nuxt_a)"
    using setup_features_store [of kit2 "defaults\<lparr>disableVuex := Some False\<rparr>" nuxt_a]
    by (simp add: nuxt_a_def)
  from 1 2 3 show ?thesis by simp
qed

text \<open>
  C9. When the \<^verbatim>\<open>'modules:done'\<close> hook is called after \<^verbatim>\<open>setup\<close>, the module's
  callback makes one \<^verbatim>\<open>addPlugin\<close> call: with the path resolved from
  \<^verbatim>\<open>'./runtime/plugin.vue2'\<close> when \<^verbatim>\<open>isNuxt2()\<close> holds and with the one resolved from
  \<^verbatim>\<open>'./runtime/plugin.vue3'\<close> otherwise. \<^verbatim>\<open>setup\<close> registers that callback once under
  \<^verbatim>\<open>'modules:done'\<close> and adds no plugin by itself.
\<close>

theorem modules_done_adds_one_plugin:
  "callbacks ''modules:done'' (module_setup k opts n) = callbacks ''modules:done'' n @ [ModulesDone]
   \<and> added_plugins (module_setup k opts n) = added_plugins n
   \<and> added_plugins (fst (run_callback k ModulesDone (m, rs))) =
       added_plugins m @
         [if isNuxt2 k then resolve k [''./runtime/plugin.vue2'']
          else resolve k [''./runtime/plugin.vue3'']]
   \<and> (callbacks ''modules:done'' n = [] \<longrightarrow>
        added_plugins (fst (callHook k ''modules:done'' (module_setup k opts n, rs))) =
          added_plugins n @
            [if isNuxt2 k then resolve k [''./runtime/plugin.vue2'']
             else resolve k [''./runtime/plugin.vue3'']])"
proof -
  have cb: "callbacks ''modules:done'' (module_setup k opts n) =
      callbacks ''modules:done'' n @ [ModulesDone]"
    by (simp add: callbacks_def hooks_setup)
  have run: "added_plugins (fst (run_callback k ModulesDone (m, rs))) =
       added_plugins m @
         [if isNuxt2 k then resolve k [''./runtime/plugin.vue2'']
          else resolve k [''./runtime/plugin.vue3'']]" for m
    by (simp add: addPlugin_def)
  have "added_plugins (fst (callHook k ''modules:done'' (module_setup k opts n, rs))) =
          added_plugins n @
            [if isNuxt2 k then resolve k [''./runtime/plugin.vue2'']
             else resolve k [''./runtime/plugin.vue3'']]"
    if "callbacks ''modules:done'' n = []"
    using that run [of "module_setup k opts n"]
    by (simp add: callHook_def cb added_plugins_setup)
  with cb run [of m] show ?thesis
    by (simp add: added_plugins_setup)
qed

theorem modules_done_adds_one_plugin_witness:
  "callbacks ''modules:done'' nuxt_a = []
   \<and> added_plugins (fst (callHook kit2 ''modules:done'' (module_setup kit2 defaults nuxt_a, []))) =
       [''./runtime/plugin.vue2'']
   \<and> added_plugins (fst (callHook kit3 ''modules:done'' (module_setup kit3 defaults nuxt_a, []))) =
       [''./runtime/plugin.vue3'']"
proof -
  have h: "callbacks ''modules:done'' nuxt_a = []" by (simp add: callbacks_def nuxt_a_def)
  have p: "added_plugins nuxt_a = []" by (simp add: nuxt_a_def)
  from modules_done_adds_one_plugin [of kit2 defaults nuxt_a nuxt_a "[]"] h p
  have a: "added_plugins (fst (callHook kit2 ''modules:done'' (module_setup kit2 defaults nuxt_a, []))) =
       [''./runtime/plugin.vue2'']"
    by (simp add: kit2_def)
  from modules_done_adds_one_plugin [of kit3 defaults nuxt_a nuxt_a "[]"] h p
  have b: "added_plugins (fst (callHook kit3 ''modules:done'' (module_setup kit3 defaults nuxt_a, []))) =
       [''./runtime/plugin.vue3'']"
    by (simp add: kit3_def kit2_def)
  from h a b show ?thesis by simp
qed

text \<open>
  C10. \<^verbatim>\<open>setup\<close> assigns the path resolved for \<^verbatim>\<open>'pinia/dist/pinia.mjs'\<close> to
  \<^verbatim>\<open>nuxt.options.alias.pinia\<close> only when that alias is falsy (absent or the empty
  string); a truthy alias set by the user is left as it is, and no other alias changes.
\<close>

theorem setup_alias_pinia:
  "aliases (options (module_setup k opts n)) ''pinia'' =
     (if truthy_str (aliases (options n) ''pinia'') then aliases (options n) ''pinia''
      else Some (resolveModule k ''pinia/dist/pinia.mjs'' [rootDir (options n), meta_url k]))
   \<and> (a \<noteq> ''pinia'' \<longrightarrow> aliases (options (module_setup k opts n)) a = aliases (options n) a)"
  by (simp add: alias_setup)

theorem setup_alias_pinia_witness:
  "aliases (options (module_setup kit2 defaults nuxt_b)) ''pinia'' = Some ''/my/pinia.js''
   \<and> aliases (options (module_setup kit2 defaults nuxt_a)) ''pinia'' =
       Some ''/app/file:///m/pinia/dist/pinia.mjs''
   \<and> ''vue'' \<noteq> ''pinia''
   \<and> aliases (options (module_setup kit2 defaults nuxt_b)) ''vue'' = None"
proof -
  have "aliases (options (module_setup kit2 defaults nuxt_b)) ''pinia'' = Some ''/my/pinia.js''"
    using setup_alias_pinia [of kit2 defaults nuxt_b "''vue''"]
    by (simp add: nuxt_b_def nuxt_a_def)
  moreover have "aliases (options (module_setup kit2 defaults nuxt_a)) ''pinia'' =
       Some ''/app/file:///m/pinia/dist/pinia.mjs''"
    using setup_alias_pinia [of kit2 defaults nuxt_a "''vue''"]
    by (simp add: nuxt_a_def kit2_def)
  moreover have "aliases (options (module_setup kit2 defaults nuxt_b)) ''vue'' = None"
    using setup_alias_pinia [of kit2 defaults nuxt_b "''vue''"]
    by (simp add: nuxt_b_def nuxt_a_def)
  ultimately show ?thesis by simp
qed

section \<open>Properties of the registry and of patching\<close>


















lemma world1_registry: "registry world1 ''main'' = Some main_store"
  by (simp add: world1_def world0_def defineStore_def unwraps_state_def
      setActivePinia_def createPinia_def main_store_def)

















text \<open>
  C2. Calling the store-creation function that \<^verbatim>\<open>defineStore\<close> returns registers the
  store under its id; a second call for the same id against the same registry, with the
  same or with another definition, looks the entry up and returns it, and changes neither
  the registry nor any ref: no second store is created.
\<close>

theorem defineStore_idempotent:
  "registry (snd (defineStore i f w)) i = Some (fst (defineStore i f w))
   \<and> defineStore i g (snd (defineStore i f w)) = defineStore i f w
   \<and> (registry w i = Some s \<longrightarrow> defineStore i g w = (s, w))"
proof (cases "registry w i")
  case None
  then show ?thesis
    by (cases "f (refs w)") (simp add: defineStore_def)
next
  case (Some t)
  then show ?thesis
    by (simp add: defineStore_def)
qed

theorem defineStore_idempotent_witness:
  "registry world1 ''main'' = Some main_store
   \<and> defineStore ''main'' unwraps_state world1 = (main_store, world1)
   \<and> defineStore ''main'' unwraps_state (snd (defineStore ''main'' unwraps_state world0)) =
       defineStore ''main'' unwraps_state world0"
proof -
  have r: "registry world1 ''main'' = Some main_store" by (rule world1_registry)
  from defineStore_idempotent [where w = world1 and i = "''main''" and f = unwraps_state
      and g = unwraps_state and s = main_store] r
  have a: "defineStore ''main'' unwraps_state world1 = (main_store, world1)" by blast
  from defineStore_idempotent [where w = world0 and i = "''main''" and f = unwraps_state
      and g = unwraps_state and s = main_store]
  have b: "defineStore ''main'' unwraps_state (snd (defineStore ''main'' unwraps_state world0)) =
       defineStore ''main'' unwraps_state world0" by blast
  from r a b show ?thesis by blast
qed




end
